theory Spec2Isabelle
  imports Main "HOL-Library.Sublist"
begin

section \<open>Go errors\<close>

text \<open>
  A Go \<open>error\<close> value is either \<open>nil\<close> or one of the values below. A function returning
  \<open>(T, error)\<close> is modelled with result type \<open>error + T\<close>, \<open>Inl\<close> carrying the non-nil
  error; a function returning only \<open>error\<close> returns \<open>error + unit\<close>.

  \<^item> \<open>errors_New m\<close> is \<open>errors.New(m)\<close>;
  \<^item> \<open>fmt_Errorf pre e\<close> is \<open>fmt.Errorf(".. %w", .., e)\<close>, with \<open>pre\<close> the text
    rendered in front of the wrapped error;
  \<^item> \<open>ErrRecordNotFound\<close> and \<open>ErrMissingWhereClause\<close> are GORM's sentinel errors;
  \<^item> \<open>driver_error m\<close> is an error reported by the database driver.
\<close>

datatype error =
    errors_New string
  | fmt_Errorf string error
  | ErrRecordNotFound
  | ErrMissingWhereClause
  | driver_error string

fun Error :: "error \<Rightarrow> string" where
  "Error (errors_New m) = m"
| "Error (fmt_Errorf pre e) = pre @ Error e"
| "Error ErrRecordNotFound = ''record not found''"
| "Error ErrMissingWhereClause = ''WHERE conditions required''"
| "Error (driver_error m) = m"

text \<open>The verb \<open>%d\<close> of \<open>fmt\<close>: a decimal numeral, with a sign when negative.\<close>

function digits :: "nat \<Rightarrow> string" where
  "digits n =
     (if n < 10 then [char_of (48 + n)]
      else digits (n div 10) @ [char_of (48 + n mod 10)])"
  by pat_completeness auto
termination
  by (relation "measure (\<lambda>n. n)") auto

declare digits.simps [simp del]

definition fmt_d :: "int \<Rightarrow> string" where
  "fmt_d i = (if i < 0 then CHR ''-'' # digits (nat (- i)) else digits (nat i))"

section \<open>Package strings\<close>

text \<open>
  \<open>strings.CutPrefix(s, prefix)\<close>: \<open>s\<close> without the leading \<open>prefix\<close> and \<open>true\<close>, or
  \<open>s\<close> itself and \<open>false\<close> when \<open>s\<close> does not start with \<open>prefix\<close>.
\<close>

definition CutPrefix :: "string \<Rightarrow> string \<Rightarrow> string \<times> bool" where
  "CutPrefix s pre = (if prefix pre s then (drop (length pre) s, True) else (s, False))"

text \<open>
  \<open>strings.ReplaceAll(s, old, new)\<close>: the non-overlapping instances of \<open>old\<close> are
  replaced from left to right. For an empty \<open>old\<close> Go inserts \<open>new\<close> in front of the
  string and after every UTF-8 sequence; the equation for that case is the one for
  strings of one-byte characters. The webhook only ever passes \<open>old = ''%u''\<close>.
\<close>

function ReplaceAll :: "string \<Rightarrow> string \<Rightarrow> string \<Rightarrow> string" where
  "ReplaceAll s old new =
     (if old = [] then new @ concat (map (\<lambda>c. c # new) s)
      else if s = [] then []
      else if prefix old s then new @ ReplaceAll (drop (length old) s) old new
      else hd s # ReplaceAll (tl s) old new)"
  by pat_completeness auto
termination
  by (relation "measure (\<lambda>(s, old, new). length s)") auto

declare ReplaceAll.simps [simp del]

text \<open>\<open>strings.Join(elems, sep)\<close>.\<close>

fun Join :: "string list \<Rightarrow> string \<Rightarrow> string" where
  "Join [] sep = []"
| "Join [e] sep = e"
| "Join (e # es) sep = e @ sep @ Join es sep"

section \<open>Package storage\<close>

text \<open>\<open>time.Time\<close> is an instant, counted in nanoseconds; \<open>int64\<close> identifiers are never
  computed with, so they are integers.\<close>

type_synonym time = int

record PolicyRule =
  ID :: int
  ZonePattern :: string
  ZoneSoa :: string
  TargetUserFilter :: string
  Description :: string
  CreatedAt :: time

text \<open>
  The GORM handle \<open>*gorm.DB\<close>: the rows of table \<open>policy_rules\<close>, in whatever order the
  database keeps them, and the failure, if any, with which the connection answers a
  statement (\<open>None\<close> for a healthy database).
\<close>

record DB =
  policy_rules :: "PolicyRule list"
  failure :: "string option"

record Storage =
  db :: DB

text \<open>\<open>s.db.Order("id asc").Find(&rules)\<close>: every row, ordered by column \<open>id\<close>.\<close>

definition PolicyGetAll :: "Storage \<Rightarrow> error + PolicyRule list" where
  "PolicyGetAll s =
     (case failure (db s) of
        Some m \<Rightarrow>
          Inl (fmt_Errorf ''storage.GetAll: Failed to retrieve rules: '' (driver_error m))
      | None \<Rightarrow> Inr (sort_key ID (policy_rules (db s))))"

text \<open>\<open>s.db.First(&rule, id)\<close>: the first row with that primary key, or
  \<open>gorm.ErrRecordNotFound\<close>.\<close>

definition PolicyGetByID :: "Storage \<Rightarrow> int \<Rightarrow> error + PolicyRule" where
  "PolicyGetByID s i =
     (case failure (db s) of
        Some m \<Rightarrow>
          Inl (fmt_Errorf (''storage.GetByID: Failed to retrieve rule '' @ fmt_d i @ '': '')
                 (driver_error m))
      | None \<Rightarrow>
          (case filter (\<lambda>r. ID r = i) (policy_rules (db s)) of
             [] \<Rightarrow> Inl ErrRecordNotFound
           | r # _ \<Rightarrow> Inr r))"

text \<open>
  \<open>s.db.Model(rule).Select("ZonePattern", "TargetUserFilter", "Description").Updates(rule)\<close>
  is the statement
  \<^verbatim>\<open>UPDATE policy_rules SET zone_pattern=?, target_user_filter=?, description=? WHERE id=?\<close>
  with the values of \<open>rule\<close>. GORM takes the \<open>WHERE\<close> clause from the primary key of the
  model and refuses the statement with \<open>ErrMissingWhereClause\<close> when that key is zero,
  before anything is sent to the database.
  The unique index on \<open>zone_pattern\<close> makes the database reject the statement, changing
  nothing, when the updated row would carry the pattern of another row.
  \<open>RowsAffected\<close> is the number of rows the statement matched.
\<close>

definition update_violates_unique :: "PolicyRule list \<Rightarrow> PolicyRule \<Rightarrow> bool" where
  "update_violates_unique rs rule =
     (filter (\<lambda>r. ID r = ID rule) rs \<noteq> [] \<and>
      filter (\<lambda>r. ID r \<noteq> ID rule \<and> ZonePattern r = ZonePattern rule) rs \<noteq> [])"

definition update_row :: "PolicyRule \<Rightarrow> PolicyRule \<Rightarrow> PolicyRule" where
  "update_row rule r =
     (if ID r = ID rule
      then r\<lparr>ZonePattern := ZonePattern rule,
             TargetUserFilter := TargetUserFilter rule,
             Description := Description rule\<rparr>
      else r)"

definition PolicyUpdate :: "Storage \<Rightarrow> PolicyRule \<Rightarrow> Storage \<times> (error + PolicyRule)" where
  "PolicyUpdate s rule =
     (let failed = (\<lambda>e. Inl (fmt_Errorf
                      (''storage.Update: Failed to update rule '' @ fmt_d (ID rule) @ '': '') e))
      in if ID rule = 0 then (s, failed ErrMissingWhereClause)
         else case failure (db s) of
           Some m \<Rightarrow> (s, failed (driver_error m))
         | None \<Rightarrow>
             if update_violates_unique (policy_rules (db s)) rule
             then (s, failed (driver_error ''UNIQUE constraint failed: policy_rules.zone_pattern''))
             else
               (let s' = s\<lparr>db := (db s)\<lparr>policy_rules := map (update_row rule) (policy_rules (db s))\<rparr>\<rparr>;
                    RowsAffected = length (filter (\<lambda>r. ID r = ID rule) (policy_rules (db s)))
                in if RowsAffected = 0
                   then (case PolicyGetByID s' (ID rule) of
                           Inl err \<Rightarrow>
                             if err = ErrRecordNotFound then (s', Inl ErrRecordNotFound)
                             else (s', Inl (fmt_Errorf
                                     (''storage.Update: Rule '' @ fmt_d (ID rule) @
                                      '' was not found after attempted update: '') err))
                         | Inr _ \<Rightarrow> (s', Inr rule))
                   else (s', Inr rule)))"

section \<open>Package config\<close>

text \<open>\<open>map[string]struct{}\<close> is a set of strings. The storage and web-server settings of
  \<open>AppConfig\<close> play no part in the webhook and are left out; the loggers of \<open>AppData\<close>
  appear as the log a handler writes.\<close>

record DnsPolicyConfig =
  SuperAdminEmails :: "string set"
  WebhookApiKey :: string

record AppConfig =
  DnsPolicyConfig :: DnsPolicyConfig
  DevMode :: bool

record AppData =
  Config :: AppConfig
  Storage :: Storage

section \<open>Identity claims and zone responses\<close>

text \<open>
  Modelled from the spec: the declaration of \<open>auth.UserClaims\<close> is outside the source at
  hand. The spec's Identity Claims carry the email as the matching key, and \<open>Email\<close> is the
  only field the webhook reads; further claims stay in the extension of the record.
\<close>

record UserClaims =
  Email :: string

text \<open>
  Modelled from the spec: the declaration of \<open>ZoneResponse\<close> is outside the source at
  hand. The webhook builds it from the two fields below, which the spec calls the
  rendered zone name and the authority copied from the rule.
\<close>

record ZoneResponse =
  Zone :: string
  ZoneSOA :: string

section \<open>The DNS label of an email\<close>

text \<open>
  Modelled from the spec: the two steps of the missing \<open>helper.DnsMakeCompliant\<close>.
  Lower-casing turns the capital letters \<open>A\<close> to \<open>Z\<close> into \<open>a\<close> to \<open>z\<close> and leaves
  every other character; \<open>label_char\<close> tells the characters \<open>a\<close> to \<open>z\<close>, \<open>0\<close> to
  \<open>9\<close> and \<open>-\<close>, by their codes, and every other character becomes a dash.
\<close>

definition to_lower :: "char \<Rightarrow> char" where
  "to_lower c =
     (if (65::nat) \<le> of_char c \<and> of_char c \<le> (90::nat)
      then char_of (of_char c + (32::nat)) else c)"

definition label_char :: "char \<Rightarrow> bool" where
  "label_char c =
     (let n = (of_char c :: nat)
      in (97 \<le> n \<and> n \<le> 122) \<or> (48 \<le> n \<and> n \<le> 57) \<or> n = 45)"

definition dash_unless_label :: "char \<Rightarrow> char" where
  "dash_unless_label c = (if label_char c then c else CHR ''-'')"

text \<open>
  Modelled from the spec: \<open>helper.DnsMakeCompliant\<close> is outside the source at hand. The
  spec's renderer computes the token so: lower-case; replace every character outside
  \<open>[a-z0-9-]\<close> with \<open>-\<close>; collapse no further (a single pass); the token must always
  be a single DNS label of at most 63 characters, and a derived token that would exceed
  this is truncated deterministically. The truncation point is the 63rd character: the
  first 63 characters are kept. Characters are the 8-bit characters of \<open>string\<close>.
\<close>

definition DnsMakeCompliant :: "string \<Rightarrow> string" where
  "DnsMakeCompliant email = take 63 (map dash_unless_label (map to_lower email))"

section \<open>The rule matcher\<close>

text \<open>
  Modelled from the spec: the glob match of a filter against an email, which the missing
  \<open>listUserRules\<close> performs. The spec's words: case-sensitive exact glob match, \<open>*\<close>
  matches any run of characters, other characters match literally, and the whole email
  must match the whole pattern. \<open>glob_match\<close> is the executable matcher.
\<close>

fun glob_match :: "string \<Rightarrow> string \<Rightarrow> bool" where
  "glob_match [] s = (s = [])"
| "glob_match (p # ps) [] = (p = CHR ''*'' \<and> glob_match ps [])"
| "glob_match (p # ps) (c # cs) =
     (if p = CHR ''*'' then glob_match ps (c # cs) \<or> glob_match (p # ps) cs
      else p = c \<and> glob_match ps cs)"

text \<open>
  Modelled from the spec: the same words read as a language, the strings a pattern
  stands for, a star standing for any string and every other character for itself.
\<close>

fun glob_language :: "string \<Rightarrow> string set" where
  "glob_language [] = {[]}"
| "glob_language (p # ps) =
     (if p = CHR ''*'' then {u @ v |u v. v \<in> glob_language ps}
      else {p # v |v. v \<in> glob_language ps})"

text \<open>
  Modelled from the spec: \<open>listUserRules\<close> belongs to package \<open>routes\<close> but its file is
  outside the source at hand; only its call in \<open>webhookFunc\<close> is, which fixes the
  parameters (the application, the claims, the super-admin flag) and the result (the
  rules or an error). The spec's matcher and orchestrator: load all rules from the rule
  store afresh, a failed read propagating as a failure; a rule matches if the glob
  matches or the super-admin flag is true; the result keeps the order of the rule set.
\<close>

definition listUserRules :: "AppData \<Rightarrow> UserClaims \<Rightarrow> bool \<Rightarrow> error + PolicyRule list" where
  "listUserRules app user is_super_admin =
     (case PolicyGetAll (Storage app) of
        Inl err \<Rightarrow> Inl err
      | Inr rules \<Rightarrow>
          Inr (filter (\<lambda>rule. is_super_admin \<or>
                               glob_match (TargetUserFilter rule) (Email user)) rules))"

section \<open>The webhook\<close>

text \<open>
  What the handler sees of a \<open>gin.Context\<close>: the request headers (Go's \<open>http.Header\<close>,
  a map from the canonical header name to its values) and what \<open>c.ShouldBindJSON\<close>
  makes of the body, the claims or the decoder's error.
\<close>

record Context =
  Header :: "string \<rightharpoonup> string list"
  BindJSON :: "error + UserClaims"

text \<open>\<open>c.GetHeader(key)\<close>: the first value of the header, the empty string when the header
  is absent.\<close>

definition GetHeader :: "Context \<Rightarrow> string \<Rightarrow> string" where
  "GetHeader c key =
     (case Header c key of None \<Rightarrow> [] | Some [] \<Rightarrow> [] | Some (v # _) \<Rightarrow> v)"

definition bearerPrefix :: string where
  "bearerPrefix = ''Bearer ''"

definition verifyApiKey :: "Context \<Rightarrow> string \<Rightarrow> error + unit" where
  "verifyApiKey c apiKey =
     (let authHeader = GetHeader c ''Authorization'';
          (tokenString, ok) = CutPrefix authHeader bearerPrefix
      in if \<not> ok then Inl (errors_New ''missing or invalid Authorization Bearer header'')
         else if tokenString \<noteq> apiKey
         then Inl (errors_New ''invalid API key provided in Authorization header'')
         else Inr ())"

text \<open>
  The effects of one run of the handler: the lines it logs (format and argument, as
  passed to the logger), the calls of \<open>listUserRules\<close> it makes (claims and flag), and
  the response it writes; \<open>gin.H{"error": m}\<close> is \<open>H [(''error'', m)]\<close>, and \<open>Aborted\<close>
  tells \<open>c.AbortWithStatusJSON\<close> from \<open>c.JSON\<close>.
\<close>

datatype log_entry =
    Debug string
  | Debugf string UserClaims
  | Warnf string error

datatype payload =
    H "(string \<times> string) list"
  | Zones "ZoneResponse list"

record Response =
  Status :: nat
  Payload :: payload
  Aborted :: bool

record Outcome =
  Log :: "log_entry list"
  RuleLookups :: "(UserClaims \<times> bool) list"
  Reply :: Response

definition StatusOK :: nat where "StatusOK = 200"
definition StatusBadRequest :: nat where "StatusBadRequest = 400"
definition StatusUnauthorized :: nat where "StatusUnauthorized = 401"
definition StatusInternalServerError :: nat where "StatusInternalServerError = 500"

text \<open>The loop over the matched rules: each turn appends one response.\<close>

definition zone_of :: "string \<Rightarrow> PolicyRule \<Rightarrow> ZoneResponse" where
  "zone_of userDnsLabel rule =
     \<lparr>Zone = ReplaceAll (ZonePattern rule) ''%u'' userDnsLabel, ZoneSOA = ZoneSoa rule\<rparr>"

definition append_zones :: "string \<Rightarrow> PolicyRule list \<Rightarrow> ZoneResponse list" where
  "append_zones userDnsLabel rules =
     foldl (\<lambda>zones rule. zones @ [zone_of userDnsLabel rule]) [] rules"

definition webhookFunc :: "AppData \<Rightarrow> Context \<Rightarrow> Outcome" where
  "webhookFunc app c =
     (let log0 = [Debug ''Received webhook DNS policy request'']
      in case verifyApiKey c (WebhookApiKey (DnsPolicyConfig (Config app))) of
           Inl err \<Rightarrow>
             \<lparr>Log = log0 @ [Warnf ''Webhook API key verification failed: %v'' err],
              RuleLookups = [],
              Reply = \<lparr>Status = StatusUnauthorized,
                       Payload = H [(''error'', Error err)], Aborted = True\<rparr>\<rparr>
         | Inr _ \<Rightarrow>
             (case BindJSON c of
                Inl err \<Rightarrow>
                  \<lparr>Log = log0 @ [Warnf ''Failed to bind JSON body: %v'' err],
                   RuleLookups = [],
                   Reply = \<lparr>Status = StatusBadRequest,
                            Payload = H [(''error'', ''invalid request body'')],
                            Aborted = True\<rparr>\<rparr>
              | Inr userClaimsReq \<Rightarrow>
                  (let log1 = log0 @ [Debugf ''Received user claims: %+v'' userClaimsReq]
                   in case listUserRules app userClaimsReq False of
                        Inl err \<Rightarrow>
                          \<lparr>Log = log1,
                           RuleLookups = [(userClaimsReq, False)],
                           Reply = \<lparr>Status = StatusInternalServerError,
                                    Payload = H [(''error'', ''Failed to retrieve rules'')],
                                    Aborted = False\<rparr>\<rparr>
                      | Inr rules \<Rightarrow>
                          (let userDnsLabel = DnsMakeCompliant (Email userClaimsReq);
                               zones = append_zones userDnsLabel rules
                           in \<lparr>Log = log1,
                               RuleLookups = [(userClaimsReq, False)],
                               Reply = \<lparr>Status = StatusOK, Payload = Zones zones,
                                        Aborted = False\<rparr>\<rparr>))))"

section \<open>Sample data\<close>

text \<open>
  The three rules of \<open>PolicyInsertDummyData\<close>, with the identifiers the database gives
  them in the order of insertion and one common instant of creation. The sample store
  keeps its rows in the opposite order; the broken store answers every statement with a
  failure.
\<close>

definition dummyRules :: "PolicyRule list" where
  "dummyRules =
     [\<lparr>ID = 1, ZonePattern = ''%u.users.dhbw.cloud'', ZoneSoa = ''users.dhbw.cloud'',
       TargetUserFilter = ''*@dhbw.de'',
       Description = ''Automatic personal zones for DHBW users'', CreatedAt = 0\<rparr>,
      \<lparr>ID = 2, ZonePattern = ''project.dhbw.cloud'', ZoneSoa = ''project.dhbw.cloud'',
       TargetUserFilter = ''*@dhbw.de'',
       Description = ''All DHBW users can manage a common project zone'', CreatedAt = 0\<rparr>,
      \<lparr>ID = 3, ZonePattern = ''%u.cloud.uni-luebeck.de'', ZoneSoa = ''cloud.uni-luebeck.de'',
       TargetUserFilter = ''*@uni-luebeck.de'',
       Description = ''All Uni-Luebeck users can create subdomains'', CreatedAt = 0\<rparr>]"

definition sample_storage :: Storage where
  "sample_storage = \<lparr>db = \<lparr>policy_rules = rev dummyRules, failure = None\<rparr>\<rparr>"

definition broken_storage :: Storage where
  "broken_storage = \<lparr>db = \<lparr>policy_rules = dummyRules, failure = Some ''database is locked''\<rparr>\<rparr>"

definition app_with :: "string \<Rightarrow> Storage \<Rightarrow> AppData" where
  "app_with apiKey st =
     \<lparr>Config = \<lparr>DnsPolicyConfig = \<lparr>SuperAdminEmails = {''admin@example.org''},
                                     WebhookApiKey = apiKey\<rparr>,
                DevMode = False\<rparr>,
      Storage = st\<rparr>"

definition sample_app :: AppData where
  "sample_app = app_with ''s3cret'' sample_storage"

definition request_with :: "string \<Rightarrow> string \<Rightarrow> Context" where
  "request_with authorization email =
     \<lparr>Header = [''Authorization'' \<mapsto> [authorization]], BindJSON = Inr \<lparr>Email = email\<rparr>\<rparr>"

definition request_without_header :: "string \<Rightarrow> Context" where
  "request_without_header email = \<lparr>Header = Map.empty, BindJSON = Inr \<lparr>Email = email\<rparr>\<rparr>"

text \<open>An update of rule 3 in which the caller also supplies a new authority and a new
  instant of creation; and an email of 64 characters.\<close>

definition sample_update :: PolicyRule where
  "sample_update =
     \<lparr>ID = 3, ZonePattern = ''%u.lab.uni-luebeck.de'', ZoneSoa = ''elsewhere.example'',
      TargetUserFilter = ''*@lab.uni-luebeck.de'', Description = ''Lab zones'',
      CreatedAt = 99\<rparr>"


section \<open>The verifier and the handler, path by path\<close>

lemma CutPrefix_bearer:
  "CutPrefix h bearerPrefix = (t, True) \<longleftrightarrow> h = bearerPrefix @ t"
  by (auto simp: CutPrefix_def prefix_def)

lemma verifyApiKey_Inr_iff:
  "verifyApiKey c apiKey = Inr () \<longleftrightarrow> GetHeader c ''Authorization'' = bearerPrefix @ apiKey"
  by (auto simp: verifyApiKey_def CutPrefix_def prefix_def Let_def)

lemma verifyApiKey_Inl:
  "verifyApiKey c apiKey = Inl err \<Longrightarrow>
     err = (if prefix bearerPrefix (GetHeader c ''Authorization'')
            then errors_New ''invalid API key provided in Authorization header''
            else errors_New ''missing or invalid Authorization Bearer header'')"
  by (auto simp: verifyApiKey_def CutPrefix_def Let_def split: if_splits)

lemma webhookFunc_unauthorized:
  "verifyApiKey c (WebhookApiKey (DnsPolicyConfig (Config app))) = Inl err \<Longrightarrow>
   webhookFunc app c =
     \<lparr>Log = [Debug ''Received webhook DNS policy request'',
             Warnf ''Webhook API key verification failed: %v'' err],
      RuleLookups = [],
      Reply = \<lparr>Status = StatusUnauthorized, Payload = H [(''error'', Error err)],
               Aborted = True\<rparr>\<rparr>"
  by (simp add: webhookFunc_def)

lemma verifyApiKey_not_Inr:
  "verifyApiKey c k \<noteq> Inr () \<Longrightarrow> \<exists>err. verifyApiKey c k = Inl err"
  by (cases "verifyApiKey c k") auto

text \<open>The loop of the handler is a map over the matched rules.\<close>

lemma foldl_snoc_map:
  "foldl (\<lambda>acc x. acc @ [f x]) acc xs = acc @ map f xs"
  by (induction xs arbitrary: acc) auto

lemma append_zones_map: "append_zones l rules = map (zone_of l) rules"
  by (simp add: append_zones_def foldl_snoc_map)

lemma webhookFunc_resolved:
  assumes "verifyApiKey c (WebhookApiKey (DnsPolicyConfig (Config app))) = Inr ()"
      and "BindJSON c = Inr claims"
      and "listUserRules app claims False = Inr rules"
  shows "webhookFunc app c =
     \<lparr>Log = [Debug ''Received webhook DNS policy request'',
             Debugf ''Received user claims: %+v'' claims],
      RuleLookups = [(claims, False)],
      Reply = \<lparr>Status = StatusOK,
               Payload = Zones (map (zone_of (DnsMakeCompliant (Email claims))) rules),
               Aborted = False\<rparr>\<rparr>"
  using assms by (simp add: webhookFunc_def append_zones_map)

lemma webhookFunc_store_failed:
  assumes "verifyApiKey c (WebhookApiKey (DnsPolicyConfig (Config app))) = Inr ()"
      and "BindJSON c = Inr claims"
      and "listUserRules app claims False = Inl err"
  shows "webhookFunc app c =
     \<lparr>Log = [Debug ''Received webhook DNS policy request'',
             Debugf ''Received user claims: %+v'' claims],
      RuleLookups = [(claims, False)],
      Reply = \<lparr>Status = StatusInternalServerError,
               Payload = H [(''error'', ''Failed to retrieve rules'')],
               Aborted = False\<rparr>\<rparr>"
  using assms by (simp add: webhookFunc_def)


section \<open>The matcher against the glob language\<close>

lemma glob_star_run: "v \<in> glob_language ps \<Longrightarrow> u @ v \<in> glob_language (CHR ''*'' # ps)"
  by auto

lemma glob_match_sound: "glob_match g e \<Longrightarrow> e \<in> glob_language g"
proof (induction g e rule: glob_match.induct)
  case (1 s)
  then show ?case by simp
next
  case (2 p ps)
  then have "[] @ [] \<in> glob_language (CHR ''*'' # ps)" by (intro glob_star_run) simp
  with 2 show ?case by simp
next
  case (3 p ps c cs)
  show ?case
  proof (cases "p = CHR ''*''")
    case True
    with 3 consider "glob_match ps (c # cs)" | "glob_match (p # ps) cs" by auto
    then show ?thesis
    proof cases
      case 1
      with 3 True have "[] @ (c # cs) \<in> glob_language (CHR ''*'' # ps)"
        by (intro glob_star_run) simp
      with True show ?thesis by simp
    next
      case 2
      with 3 True have "cs \<in> glob_language (CHR ''*'' # ps)" by simp
      then obtain u v where "cs = u @ v" "v \<in> glob_language ps" by auto
      then have "(c # u) @ v \<in> glob_language (CHR ''*'' # ps)" by (intro glob_star_run)
      with True \<open>cs = u @ v\<close> show ?thesis by simp
    qed
  next
    case False
    with 3 show ?thesis by auto
  qed
qed

lemma glob_match_star: "glob_match ps v \<Longrightarrow> glob_match (CHR ''*'' # ps) (u @ v)"
proof (induction u)
  case Nil
  then show ?case by (cases v) auto
next
  case (Cons a u)
  then show ?case by simp
qed

lemma glob_match_complete: "e \<in> glob_language g \<Longrightarrow> glob_match g e"
proof (induction g arbitrary: e)
  case Nil
  then show ?case by simp
next
  case (Cons p ps)
  show ?case
  proof (cases "p = CHR ''*''")
    case True
    with Cons.prems obtain u v where "e = u @ v" "v \<in> glob_language ps" by auto
    with Cons.IH True show ?thesis by (auto intro: glob_match_star)
  next
    case False
    with Cons.prems obtain v where "e = p # v" "v \<in> glob_language ps" by auto
    with Cons.IH False show ?thesis by simp
  qed
qed

lemma glob_match_iff: "glob_match g e \<longleftrightarrow> e \<in> glob_language g"
  using glob_match_sound glob_match_complete by blast

lemma glob_literal: "CHR ''*'' \<notin> set g \<Longrightarrow> glob_language g = {g}"
  by (induction g) auto

section \<open>Replacing the placeholder\<close>

lemma ReplaceAll_Nil: "ReplaceAll [] ''%u'' new = []"
  by (simp add: ReplaceAll.simps)

lemma ReplaceAll_hit: "ReplaceAll (''%u'' @ s) ''%u'' new = new @ ReplaceAll s ''%u'' new"
  by (subst ReplaceAll.simps) simp

lemma ReplaceAll_miss:
  "\<not> prefix ''%u'' (c # s) \<Longrightarrow> ReplaceAll (c # s) ''%u'' new = c # ReplaceAll s ''%u'' new"
  by (subst ReplaceAll.simps) auto

lemma sublist_Cons_split:
  "sublist p (c # s) \<longleftrightarrow> prefix p (c # s) \<or> sublist p s"
  by (rule sublist_Cons_right)

lemma ReplaceAll_absent: "\<not> sublist ''%u'' s \<Longrightarrow> ReplaceAll s ''%u'' new = s"
proof (induction s)
  case Nil
  then show ?case by (simp add: ReplaceAll_Nil)
next
  case (Cons c s)
  then have np: "\<not> prefix ''%u'' (c # s)" and ns: "\<not> sublist ''%u'' s"
    unfolding sublist_Cons_split by blast+
  from ns Cons.IH have "ReplaceAll s ''%u'' new = s" by blast
  with ReplaceAll_miss [OF np] show ?case by simp
qed

lemma prefix_pct_u_append:
  assumes "\<not> prefix ''%u'' (c # a)"
  shows "\<not> prefix ''%u'' (c # a @ ''%u'' @ b)"
proof
  assume "prefix ''%u'' (c # a @ ''%u'' @ b)"
  then have c: "c = CHR ''%''" and u: "prefix ''u'' (a @ ''%u'' @ b)" by auto
  show False
  proof (cases a)
    case Nil
    with u show False by simp
  next
    case (Cons x xs)
    with u have "x = CHR ''u''" by simp
    with c Cons assms show False by simp
  qed
qed

lemma ReplaceAll_first:
  "\<not> sublist ''%u'' a \<Longrightarrow>
     ReplaceAll (a @ ''%u'' @ b) ''%u'' new = a @ new @ ReplaceAll b ''%u'' new"
proof (induction a)
  case Nil
  show ?case using ReplaceAll_hit [of b new] by simp
next
  case (Cons c a)
  then have np: "\<not> prefix ''%u'' (c # a)" and ns: "\<not> sublist ''%u'' a"
    unfolding sublist_Cons_split by blast+
  have "ReplaceAll (c # a @ ''%u'' @ b) ''%u'' new = c # ReplaceAll (a @ ''%u'' @ b) ''%u'' new"
    using prefix_pct_u_append [OF np] by (rule ReplaceAll_miss)
  also have "\<dots> = c # a @ new @ ReplaceAll b ''%u'' new"
    using Cons.IH ns by simp
  finally show ?case by simp
qed

lemma ReplaceAll_Join:
  "pieces \<noteq> [] \<Longrightarrow> \<forall>p\<in>set pieces. \<not> sublist ''%u'' p \<Longrightarrow>
     ReplaceAll (Join pieces ''%u'') ''%u'' new = Join pieces new"
proof (induction pieces)
  case Nil
  then show ?case by simp
next
  case (Cons e es)
  show ?case
  proof (cases es)
    case Nil
    with Cons.prems show ?thesis by (simp add: ReplaceAll_absent)
  next
    case (Cons x xs)
    from Cons.prems have e: "\<not> sublist ''%u'' e" and es: "\<forall>p\<in>set es. \<not> sublist ''%u'' p"
      by simp_all
    from Cons have ne: "es \<noteq> []" by simp
    have "Join (e # es) ''%u'' = e @ ''%u'' @ Join es ''%u''"
      using Cons by simp
    then have "ReplaceAll (Join (e # es) ''%u'') ''%u'' new =
                 e @ new @ ReplaceAll (Join es ''%u'') ''%u'' new"
      using ReplaceAll_first [OF e] by simp
    also have "\<dots> = e @ new @ Join es new"
      using Cons.IH [OF ne es] by simp
    also have "\<dots> = Join (e # es) new"
      using Cons by simp
    finally show ?thesis .
  qed
qed

lemma first_occurrence:
  "sublist ''%u'' s \<Longrightarrow> \<exists>a b. s = a @ ''%u'' @ b \<and> \<not> sublist ''%u'' a"
proof (induction s)
  case Nil
  then show ?case by simp
next
  case (Cons c s)
  show ?case
  proof (cases "prefix ''%u'' (c # s)")
    case True
    then obtain b where "c # s = [] @ ''%u'' @ b" by (auto simp: prefix_def)
    moreover have "\<not> sublist ''%u'' []" by simp
    ultimately show ?thesis by blast
  next
    case False
    with Cons.prems have "sublist ''%u'' s" unfolding sublist_Cons_split by blast
    with Cons.IH obtain a b where ab: "s = a @ ''%u'' @ b" "\<not> sublist ''%u'' a" by blast
    from ab have eq: "c # s = (c # a) @ ''%u'' @ b" by simp
    have "\<not> prefix ''%u'' (c # a)"
    proof
      assume "prefix ''%u'' (c # a)"
      then have "prefix ''%u'' ((c # a) @ ''%u'' @ b)"
        by (rule prefix_prefix)
      with False show False unfolding eq by blast
    qed
    with ab have "\<not> sublist ''%u'' (c # a)" unfolding sublist_Cons_split [of _ c a] by blast
    with eq show ?thesis by blast
  qed
qed

lemma pieces_exist:
  "\<exists>pieces. pieces \<noteq> [] \<and> (\<forall>p\<in>set pieces. \<not> sublist ''%u'' p) \<and> s = Join pieces ''%u''"
proof (induction "length s" arbitrary: s rule: less_induct)
  case less
  show ?case
  proof (cases "sublist ''%u'' s")
    case False
    then have "[s] \<noteq> [] \<and> (\<forall>p\<in>set [s]. \<not> sublist ''%u'' p) \<and> s = Join [s] ''%u''" by simp
    then show ?thesis by blast
  next
    case True
    then obtain a b where ab: "s = a @ ''%u'' @ b" "\<not> sublist ''%u'' a"
      using first_occurrence by blast
    then have "length b < length s" by simp
    with less obtain ps where ps: "ps \<noteq> []" "\<forall>p\<in>set ps. \<not> sublist ''%u'' p" "b = Join ps ''%u''"
      by blast
    then obtain q qs where "ps = q # qs" by (cases ps) auto
    with ps ab have "a # ps \<noteq> [] \<and> (\<forall>p\<in>set (a # ps). \<not> sublist ''%u'' p) \<and> s = Join (a # ps) ''%u''"
      by simp
    then show ?thesis by blast
  qed
qed

section \<open>The characters of a label\<close>










section \<open>The rule store\<close>

lemma PolicyGetAll_sorted: "PolicyGetAll s = Inr rules \<Longrightarrow> sorted (map ID rules)"
  by (auto simp: PolicyGetAll_def split: option.splits)

lemma PolicyGetAll_rows:
  "PolicyGetAll s = Inr rules \<Longrightarrow>
     set rules = set (policy_rules (db s)) \<and> length rules = length (policy_rules (db s))"
  by (auto simp: PolicyGetAll_def split: option.splits)

lemma PolicyGetAll_fails_iff:
  "(\<exists>err. PolicyGetAll s = Inl err) \<longleftrightarrow> failure (db s) \<noteq> None"
  by (auto simp: PolicyGetAll_def split: option.splits)

lemma listUserRules_Inr:
  "PolicyGetAll (Storage app) = Inr all \<Longrightarrow>
     listUserRules app user flag =
       Inr (filter (\<lambda>rule. flag \<or> glob_match (TargetUserFilter rule) (Email user)) all)"
  by (simp add: listUserRules_def)

lemma listUserRules_Inl:
  "PolicyGetAll (Storage app) = Inl err \<Longrightarrow> listUserRules app user flag = Inl err"
  by (simp add: listUserRules_def)

lemma update_row_frame:
  "ID (update_row rule r) = ID r"
  "ZoneSoa (update_row rule r) = ZoneSoa r"
  "CreatedAt (update_row rule r) = CreatedAt r"
  by (simp_all add: update_row_def)

lemma update_row_other: "ID r \<noteq> ID rule \<Longrightarrow> update_row rule r = r"
  by (simp add: update_row_def)

lemma update_row_target:
  "ID r = ID rule \<Longrightarrow>
     ZonePattern (update_row rule r) = ZonePattern rule \<and>
     TargetUserFilter (update_row rule r) = TargetUserFilter rule \<and>
     Description (update_row rule r) = Description rule"
  by (simp add: update_row_def)

lemma PolicyUpdate_success:
  "PolicyUpdate s rule = (s', Inr r) \<Longrightarrow>
     failure (db s) = None \<and> r = rule \<and>
     s' = s\<lparr>db := (db s)\<lparr>policy_rules := map (update_row rule) (policy_rules (db s))\<rparr>\<rparr>"
  by (auto simp: PolicyUpdate_def Let_def split: option.splits if_splits sum.splits)

lemma filter_ID_update_row:
  "filter (\<lambda>r. ID r = i) (map (update_row rule) rs) = map (update_row rule) (filter (\<lambda>r. ID r = i) rs)"
  by (induction rs) (simp_all add: update_row_frame)

lemma PolicyGetByID_after_update:
  assumes "PolicyUpdate s rule = (s', Inr r)" and "PolicyGetByID s i = Inr old"
  shows "PolicyGetByID s' i = Inr (update_row rule old)"
proof -
  from assms(1) have f: "failure (db s) = None"
    and s': "s' = s\<lparr>db := (db s)\<lparr>policy_rules := map (update_row rule) (policy_rules (db s))\<rparr>\<rparr>"
    using PolicyUpdate_success by blast+
  from assms(2) f obtain rest where "filter (\<lambda>r. ID r = i) (policy_rules (db s)) = old # rest"
    by (auto simp: PolicyGetByID_def split: list.splits)
  with f s' show ?thesis
    by (simp add: PolicyGetByID_def filter_ID_update_row)
qed

lemma PolicyGetByID_ID: "PolicyGetByID s i = Inr r \<Longrightarrow> ID r = i"
proof -
  assume a: "PolicyGetByID s i = Inr r"
  then obtain rest where "filter (\<lambda>r. ID r = i) (policy_rules (db s)) = r # rest"
    by (auto simp: PolicyGetByID_def split: option.splits list.splits)
  then have "r \<in> set (filter (\<lambda>r. ID r = i) (policy_rules (db s)))" by simp
  then show ?thesis by simp
qed

section \<open>Evaluating the sample data\<close>

lemma sample_key: "WebhookApiKey (DnsPolicyConfig (Config (app_with k st))) = k"
  by (simp add: app_with_def)

lemma sample_storage_of: "Storage (app_with k st) = st"
  by (simp add: app_with_def)

lemma GetHeader_request_with: "GetHeader (request_with a e) ''Authorization'' = a"
  by (simp add: GetHeader_def request_with_def)

lemma GetHeader_request_without: "GetHeader (request_without_header e) ''Authorization'' = []"
  by (simp add: GetHeader_def request_without_header_def)

lemma BindJSON_request_with: "BindJSON (request_with a e) = Inr \<lparr>Email = e\<rparr>"
  by (simp add: request_with_def)

lemma PolicyGetAll_sample: "PolicyGetAll sample_storage = Inr dummyRules"
  by (simp add: PolicyGetAll_def sample_storage_def dummyRules_def)

lemma PolicyGetAll_broken:
  "PolicyGetAll broken_storage =
     Inl (fmt_Errorf ''storage.GetAll: Failed to retrieve rules: ''
            (driver_error ''database is locked''))"
  by (simp add: PolicyGetAll_def broken_storage_def)

section \<open>Credential verification\<close>

text \<open>
  C3. The shared-secret verifier succeeds exactly when the \<open>Authorization\<close> header is
  the string \<open>Bearer \<close> followed by the configured secret, byte for byte. For every
  other header value (an absent header reads as the empty string) it fails, and then the
  webhook answers 401 without calling \<open>listUserRules\<close>: no lookup is recorded and the
  outcome is the same for every rule store.
\<close>

theorem verifier_accepts_exactly_bearer_secret:
  "(verifyApiKey c apiKey = Inr () \<longleftrightarrow> GetHeader c ''Authorization'' = ''Bearer '' @ apiKey) \<and>
   (Header c ''Authorization'' = None \<longrightarrow> verifyApiKey c apiKey \<noteq> Inr ()) \<and>
   (GetHeader c ''Authorization'' \<noteq> ''Bearer '' @ WebhookApiKey (DnsPolicyConfig (Config app)) \<longrightarrow>
      Status (Reply (webhookFunc app c)) = 401 \<and>
      RuleLookups (webhookFunc app c) = [] \<and>
      (\<forall>st. webhookFunc (app\<lparr>Storage := st\<rparr>) c = webhookFunc app c))"
proof (intro conjI impI allI)
  show iff: "verifyApiKey c apiKey = Inr () \<longleftrightarrow> GetHeader c ''Authorization'' = ''Bearer '' @ apiKey"
    for apiKey
    using verifyApiKey_Inr_iff [of c apiKey] by (simp add: bearerPrefix_def)
  show "verifyApiKey c apiKey \<noteq> Inr ()" if "Header c ''Authorization'' = None"
  proof -
    from that have "GetHeader c ''Authorization'' = []" by (simp add: GetHeader_def)
    then show ?thesis by (simp add: iff)
  qed
  assume "GetHeader c ''Authorization'' \<noteq> ''Bearer '' @ WebhookApiKey (DnsPolicyConfig (Config app))"
  then have "verifyApiKey c (WebhookApiKey (DnsPolicyConfig (Config app))) \<noteq> Inr ()"
    by (simp add: iff)
  then obtain err where err: "verifyApiKey c (WebhookApiKey (DnsPolicyConfig (Config app))) = Inl err"
    using verifyApiKey_not_Inr by blast
  from webhookFunc_unauthorized [OF err]
  show "Status (Reply (webhookFunc app c)) = 401" "RuleLookups (webhookFunc app c) = []"
    by (simp_all add: StatusUnauthorized_def)
  fix st
  from err have "verifyApiKey c (WebhookApiKey (DnsPolicyConfig (Config (app\<lparr>Storage := st\<rparr>)))) = Inl err"
    by simp
  from webhookFunc_unauthorized [OF this] webhookFunc_unauthorized [OF err]
  show "webhookFunc (app\<lparr>Storage := st\<rparr>) c = webhookFunc app c" by simp
qed

theorem verifier_accepts_exactly_bearer_secret_witness:
  "verifyApiKey (request_with ''Bearer s3cret'' ''bob@uni-luebeck.de'') ''s3cret'' = Inr () \<and>
   verifyApiKey (request_without_header ''bob@uni-luebeck.de'') ''s3cret'' \<noteq> Inr () \<and>
   Status (Reply (webhookFunc sample_app (request_with ''s3cret'' ''bob@uni-luebeck.de''))) = 401 \<and>
   RuleLookups (webhookFunc sample_app (request_with ''s3cret'' ''bob@uni-luebeck.de'')) = [] \<and>
   webhookFunc (sample_app\<lparr>Storage := broken_storage\<rparr>) (request_with ''s3cret'' ''bob@uni-luebeck.de'') =
     webhookFunc sample_app (request_with ''s3cret'' ''bob@uni-luebeck.de'')"
proof -
  have a: "GetHeader (request_with ''Bearer s3cret'' ''bob@uni-luebeck.de'') ''Authorization'' =
             ''Bearer '' @ ''s3cret''"
    by (simp add: GetHeader_request_with)
  have b: "Header (request_without_header ''bob@uni-luebeck.de'') ''Authorization'' = None"
    by (simp add: request_without_header_def)
  have c: "GetHeader (request_with ''s3cret'' ''bob@uni-luebeck.de'') ''Authorization'' \<noteq>
             ''Bearer '' @ WebhookApiKey (DnsPolicyConfig (Config sample_app))"
    by (simp add: GetHeader_request_with sample_app_def sample_key)
  from a b c
    verifier_accepts_exactly_bearer_secret
      [of "request_with ''Bearer s3cret'' ''bob@uni-luebeck.de''" "''s3cret''" sample_app]
    verifier_accepts_exactly_bearer_secret
      [of "request_without_header ''bob@uni-luebeck.de''" "''s3cret''" sample_app]
    verifier_accepts_exactly_bearer_secret
      [of "request_with ''s3cret'' ''bob@uni-luebeck.de''" "''s3cret''" sample_app]
  show ?thesis by blast
qed



text \<open>
  C2 as stated fails: a request without the header and a request with a wrong key both
  get 401, but with different messages in the body.
\<close>

theorem unauthorized_messages_differ:
  "Reply (webhookFunc sample_app (request_without_header ''bob@uni-luebeck.de'')) =
     \<lparr>Status = 401, Payload = H [(''error'', ''missing or invalid Authorization Bearer header'')],
      Aborted = True\<rparr> \<and>
   Reply (webhookFunc sample_app (request_with ''Bearer wrong'' ''bob@uni-luebeck.de'')) =
     \<lparr>Status = 401, Payload = H [(''error'', ''invalid API key provided in Authorization header'')],
      Aborted = True\<rparr> \<and>
   Payload (Reply (webhookFunc sample_app (request_without_header ''bob@uni-luebeck.de''))) \<noteq>
   Payload (Reply (webhookFunc sample_app (request_with ''Bearer wrong'' ''bob@uni-luebeck.de'')))"
proof -
  have a: "verifyApiKey (request_without_header ''bob@uni-luebeck.de'')
             (WebhookApiKey (DnsPolicyConfig (Config sample_app))) =
           Inl (errors_New ''missing or invalid Authorization Bearer header'')"
    by (simp add: verifyApiKey_def GetHeader_request_without CutPrefix_def bearerPrefix_def)
  have b: "verifyApiKey (request_with ''Bearer wrong'' ''bob@uni-luebeck.de'')
             (WebhookApiKey (DnsPolicyConfig (Config sample_app))) =
           Inl (errors_New ''invalid API key provided in Authorization header'')"
    by (simp add: verifyApiKey_def GetHeader_request_with CutPrefix_def bearerPrefix_def
        sample_app_def sample_key)
  from webhookFunc_unauthorized [OF a] webhookFunc_unauthorized [OF b]
  show ?thesis by (simp add: StatusUnauthorized_def)
qed

text \<open>
  C2, amended. Every webhook request that fails credential verification gets the status
  401, and the body carries the verifier's own message, the same text that is logged:
  one message when the header does not start with \<open>Bearer \<close> (or is absent), another
  when the prefix is there and the key differs.
\<close>

theorem unauthorized_reply_carries_verifier_message:
  assumes "verifyApiKey c (WebhookApiKey (DnsPolicyConfig (Config app))) = Inl err"
  shows "Status (Reply (webhookFunc app c)) = 401 \<and>
         Payload (Reply (webhookFunc app c)) = H [(''error'', Error err)] \<and>
         Log (webhookFunc app c) =
           [Debug ''Received webhook DNS policy request'',
            Warnf ''Webhook API key verification failed: %v'' err] \<and>
         Error err =
           (if prefix ''Bearer '' (GetHeader c ''Authorization'')
            then ''invalid API key provided in Authorization header''
            else ''missing or invalid Authorization Bearer header'')"
proof -
  from verifyApiKey_Inl [OF assms]
  have "Error err =
           (if prefix ''Bearer '' (GetHeader c ''Authorization'')
            then ''invalid API key provided in Authorization header''
            else ''missing or invalid Authorization Bearer header'')"
    by (simp add: bearerPrefix_def)
  with webhookFunc_unauthorized [OF assms] show ?thesis
    by (simp add: StatusUnauthorized_def)
qed

theorem unauthorized_reply_carries_verifier_message_witness:
  "Status (Reply (webhookFunc sample_app (request_with ''Bearer wrong'' ''bob@uni-luebeck.de''))) = 401 \<and>
   Payload (Reply (webhookFunc sample_app (request_with ''Bearer wrong'' ''bob@uni-luebeck.de''))) =
     H [(''error'', ''invalid API key provided in Authorization header'')]"
proof -
  have b: "verifyApiKey (request_with ''Bearer wrong'' ''bob@uni-luebeck.de'')
             (WebhookApiKey (DnsPolicyConfig (Config sample_app))) =
           Inl (errors_New ''invalid API key provided in Authorization header'')"
    by (simp add: verifyApiKey_def GetHeader_request_with CutPrefix_def bearerPrefix_def
        sample_app_def sample_key)
  from unauthorized_reply_carries_verifier_message [OF b] show ?thesis by simp
qed

section \<open>Rendering the zones\<close>

lemma listUserRules_alice:
  "listUserRules sample_app \<lparr>Email = ''alice@dhbw.de''\<rparr> False = Inr [dummyRules ! 0, dummyRules ! 1]"
  by (simp add: listUserRules_def sample_app_def sample_storage_of PolicyGetAll_sample)
     (simp add: dummyRules_def)

lemma label_alice: "DnsMakeCompliant ''alice@dhbw.de'' = ''alice-dhbw-de''"
  by code_simp

lemma no_placeholder_project: "\<not> sublist ''%u'' ''project.dhbw.cloud''"
  by (simp add: sublist_Cons_right)

lemma verify_sample:
  "verifyApiKey (request_with ''Bearer s3cret'' e) (WebhookApiKey (DnsPolicyConfig (Config sample_app))) = Inr ()"
  by (simp add: verifyApiKey_Inr_iff GetHeader_request_with bearerPrefix_def sample_app_def sample_key)

text \<open>
  C4. When the webhook resolves, it answers 200 with one zone response per matched rule,
  in the same position. The response's \<open>ZoneSOA\<close> is the rule's \<open>ZoneSoa\<close>, unchanged.
  Its \<open>Zone\<close> is \<open>strings.ReplaceAll\<close> of the rule's pattern, which is the pattern with
  every occurrence of \<open>%u\<close> replaced by the label of the email: however the pattern is
  cut into pieces free of \<open>%u\<close> and joined by \<open>%u\<close> (\<open>pieces_exist\<close>: it always can
  be), the zone is the same pieces joined by the label. A pattern without \<open>%u\<close> is
  returned as it is.
\<close>

theorem zone_response_substitutes_placeholder:
  assumes "verifyApiKey c (WebhookApiKey (DnsPolicyConfig (Config app))) = Inr ()"
      and "BindJSON c = Inr claims"
      and "listUserRules app claims False = Inr rules"
  shows "\<exists>zones.
           Reply (webhookFunc app c) = \<lparr>Status = 200, Payload = Zones zones, Aborted = False\<rparr> \<and>
           length zones = length rules \<and>
           (\<forall>i<length rules.
              ZoneSOA (zones ! i) = ZoneSoa (rules ! i) \<and>
              Zone (zones ! i) =
                ReplaceAll (ZonePattern (rules ! i)) ''%u'' (DnsMakeCompliant (Email claims)) \<and>
              (\<forall>pieces.
                 pieces \<noteq> [] \<and> (\<forall>p\<in>set pieces. \<not> sublist ''%u'' p) \<and>
                 ZonePattern (rules ! i) = Join pieces ''%u'' \<longrightarrow>
                 Zone (zones ! i) = Join pieces (DnsMakeCompliant (Email claims))) \<and>
              (\<not> sublist ''%u'' (ZonePattern (rules ! i)) \<longrightarrow>
                 Zone (zones ! i) = ZonePattern (rules ! i)))"
proof -
  define label where "label = DnsMakeCompliant (Email claims)"
  define zones where "zones = map (zone_of label) rules"
  have reply: "Reply (webhookFunc app c) = \<lparr>Status = 200, Payload = Zones zones, Aborted = False\<rparr>"
    using webhookFunc_resolved [OF assms] by (simp add: zones_def label_def StatusOK_def)
  have len: "length zones = length rules" by (simp add: zones_def)
  have each: "ZoneSOA (zones ! i) = ZoneSoa (rules ! i) \<and>
              Zone (zones ! i) = ReplaceAll (ZonePattern (rules ! i)) ''%u'' label \<and>
              (\<forall>pieces.
                 pieces \<noteq> [] \<and> (\<forall>p\<in>set pieces. \<not> sublist ''%u'' p) \<and>
                 ZonePattern (rules ! i) = Join pieces ''%u'' \<longrightarrow>
                 Zone (zones ! i) = Join pieces label) \<and>
              (\<not> sublist ''%u'' (ZonePattern (rules ! i)) \<longrightarrow>
                 Zone (zones ! i) = ZonePattern (rules ! i))"
    if i: "i < length rules" for i
  proof -
    from i have z: "zones ! i = zone_of label (rules ! i)" by (simp add: zones_def)
    then have soa: "ZoneSOA (zones ! i) = ZoneSoa (rules ! i)"
      and zone: "Zone (zones ! i) = ReplaceAll (ZonePattern (rules ! i)) ''%u'' label"
      by (simp_all add: zone_of_def)
    have joined: "Zone (zones ! i) = Join pieces label"
      if "pieces \<noteq> []" "\<forall>p\<in>set pieces. \<not> sublist ''%u'' p"
         "ZonePattern (rules ! i) = Join pieces ''%u''" for pieces
      using that zone ReplaceAll_Join [of pieces label] by simp
    have absent: "Zone (zones ! i) = ZonePattern (rules ! i)"
      if "\<not> sublist ''%u'' (ZonePattern (rules ! i))"
      using that zone ReplaceAll_absent by simp
    from soa zone joined absent show ?thesis by blast
  qed
  from reply len each show ?thesis unfolding label_def by blast
qed

theorem zone_response_substitutes_placeholder_witness:
  "Reply (webhookFunc sample_app (request_with ''Bearer s3cret'' ''alice@dhbw.de'')) =
     \<lparr>Status = 200,
      Payload = Zones [\<lparr>Zone = ''alice-dhbw-de.users.dhbw.cloud'', ZoneSOA = ''users.dhbw.cloud''\<rparr>,
                       \<lparr>Zone = ''project.dhbw.cloud'', ZoneSOA = ''project.dhbw.cloud''\<rparr>],
      Aborted = False\<rparr>"
proof -
  let ?c = "request_with ''Bearer s3cret'' ''alice@dhbw.de''"
  let ?claims = "\<lparr>Email = ''alice@dhbw.de''\<rparr>"
  let ?rules = "[dummyRules ! 0, dummyRules ! 1]"
  have b: "BindJSON ?c = Inr ?claims" by (rule BindJSON_request_with)
  from zone_response_substitutes_placeholder [OF verify_sample b listUserRules_alice]
  obtain zones where
    reply: "Reply (webhookFunc sample_app ?c) = \<lparr>Status = 200, Payload = Zones zones, Aborted = False\<rparr>"
    and len: "length zones = length ?rules"
    and each: "\<forall>i<length ?rules.
              ZoneSOA (zones ! i) = ZoneSoa (?rules ! i) \<and>
              Zone (zones ! i) =
                ReplaceAll (ZonePattern (?rules ! i)) ''%u'' (DnsMakeCompliant (Email ?claims)) \<and>
              (\<forall>pieces.
                 pieces \<noteq> [] \<and> (\<forall>p\<in>set pieces. \<not> sublist ''%u'' p) \<and>
                 ZonePattern (?rules ! i) = Join pieces ''%u'' \<longrightarrow>
                 Zone (zones ! i) = Join pieces (DnsMakeCompliant (Email ?claims))) \<and>
              (\<not> sublist ''%u'' (ZonePattern (?rules ! i)) \<longrightarrow>
                 Zone (zones ! i) = ZonePattern (?rules ! i))"
    by blast
  from len obtain z0 z1 where zs: "zones = [z0, z1]"
    by (cases zones; cases "tl zones") auto
  have pat: "ZonePattern (dummyRules ! 0) = Join [[], ''.users.dhbw.cloud''] ''%u''"
    by (simp add: dummyRules_def)
  have nosub: "\<forall>p\<in>set [[], ''.users.dhbw.cloud'']. \<not> sublist ''%u'' p"
    by (simp add: sublist_Cons_right)
  from each have soa0: "ZoneSOA (zones ! 0) = ZoneSoa (?rules ! 0)"
    and join0: "\<And>pieces. pieces \<noteq> [] \<Longrightarrow> (\<forall>p\<in>set pieces. \<not> sublist ''%u'' p) \<Longrightarrow>
                 ZonePattern (?rules ! 0) = Join pieces ''%u'' \<Longrightarrow>
                 Zone (zones ! 0) = Join pieces (DnsMakeCompliant (Email ?claims))"
    by auto
  from each have soa1: "ZoneSOA (zones ! 1) = ZoneSoa (?rules ! 1)"
    and absent1: "\<not> sublist ''%u'' (ZonePattern (?rules ! 1)) \<Longrightarrow>
                 Zone (zones ! 1) = ZonePattern (?rules ! 1)"
    by auto
  from join0 [of "[[], ''.users.dhbw.cloud'']"] pat nosub
  have "Zone z0 = ''alice-dhbw-de.users.dhbw.cloud''"
    by (simp add: zs label_alice)
  moreover from soa0 have "ZoneSOA z0 = ''users.dhbw.cloud''"
    by (simp add: zs dummyRules_def)
  ultimately have z0: "z0 = \<lparr>Zone = ''alice-dhbw-de.users.dhbw.cloud'', ZoneSOA = ''users.dhbw.cloud''\<rparr>"
    by simp
  have "ZonePattern (?rules ! 1) = ''project.dhbw.cloud''" by (simp add: dummyRules_def)
  with absent1 no_placeholder_project have "Zone z1 = ''project.dhbw.cloud''"
    by (simp add: zs)
  moreover from soa1 have "ZoneSOA z1 = ''project.dhbw.cloud''"
    by (simp add: zs dummyRules_def)
  ultimately have z1: "z1 = \<lparr>Zone = ''project.dhbw.cloud'', ZoneSOA = ''project.dhbw.cloud''\<rparr>"
    by simp
  from reply zs z0 z1 show ?thesis by simp
qed

section \<open>Matching rules\<close>

lemma glob_examples:
  "glob_match ''*@dhbw.de'' ''alice@dhbw.de''"
  "\<not> glob_match ''*@dhbw.de'' ''alice@dhbw.de.evil.com''"
  "\<not> glob_match ''*@dhbw.de'' ''Alice@DHBW.de''"
  by simp_all

text \<open>
  C5. For the call the webhook makes (super-admin flag false), the matcher returns
  exactly those stored rules whose filter, read as a glob, stands for the whole email:
  a star stands for any run of characters, every other character for itself, with no
  folding of case and no match of a mere part. A filter without a star matches its own
  text only; \<open>alice@dhbw.de\<close> matches \<open>*@dhbw.de\<close>, while
  \<open>alice@dhbw.de.evil.com\<close> and \<open>Alice@DHBW.de\<close> do not.
\<close>

theorem matcher_is_full_glob_match:
  "(PolicyGetAll (Storage app) = Inr all \<longrightarrow>
      listUserRules app claims False =
        Inr (filter (\<lambda>rule. Email claims \<in> glob_language (TargetUserFilter rule)) all)) \<and>
   (CHR ''*'' \<notin> set g \<longrightarrow> (e \<in> glob_language g \<longleftrightarrow> e = g)) \<and>
   (e \<in> glob_language (CHR ''*'' # g) \<longleftrightarrow> (\<exists>u v. e = u @ v \<and> v \<in> glob_language g)) \<and>
   ''alice@dhbw.de'' \<in> glob_language ''*@dhbw.de'' \<and>
   ''alice@dhbw.de.evil.com'' \<notin> glob_language ''*@dhbw.de'' \<and>
   ''Alice@DHBW.de'' \<notin> glob_language ''*@dhbw.de''"
proof (intro conjI impI)
  assume "PolicyGetAll (Storage app) = Inr all"
  then show "listUserRules app claims False =
        Inr (filter (\<lambda>rule. Email claims \<in> glob_language (TargetUserFilter rule)) all)"
    by (simp add: listUserRules_Inr glob_match_iff)
next
  assume "CHR ''*'' \<notin> set g"
  then show "e \<in> glob_language g \<longleftrightarrow> e = g" by (simp add: glob_literal)
next
  show "e \<in> glob_language (CHR ''*'' # g) \<longleftrightarrow> (\<exists>u v. e = u @ v \<and> v \<in> glob_language g)"
    by auto
next
  show "''alice@dhbw.de'' \<in> glob_language ''*@dhbw.de''"
    using glob_examples(1) glob_match_iff by blast
  show "''alice@dhbw.de.evil.com'' \<notin> glob_language ''*@dhbw.de''"
    using glob_examples(2) glob_match_iff by blast
  show "''Alice@DHBW.de'' \<notin> glob_language ''*@dhbw.de''"
    using glob_examples(3) glob_match_iff by blast
qed

theorem matcher_is_full_glob_match_witness:
  "listUserRules sample_app \<lparr>Email = ''alice@dhbw.de''\<rparr> False =
     Inr [dummyRules ! 0, dummyRules ! 1] \<and>
   listUserRules sample_app \<lparr>Email = ''alice@dhbw.de.evil.com''\<rparr> False = Inr [] \<and>
   ''project.dhbw.cloud.'' \<notin> glob_language ''project.dhbw.cloud''"
proof -
  have all: "PolicyGetAll (Storage sample_app) = Inr dummyRules"
    by (simp add: sample_app_def sample_storage_of PolicyGetAll_sample)
  have star: "CHR ''*'' \<notin> set ''project.dhbw.cloud''" by simp
  have f1: "filter (\<lambda>rule. Email \<lparr>Email = ''alice@dhbw.de''\<rparr> \<in> glob_language (TargetUserFilter rule))
              dummyRules = [dummyRules ! 0, dummyRules ! 1]"
    unfolding glob_match_iff [symmetric] by (simp add: dummyRules_def)
  have f2: "filter (\<lambda>rule. Email \<lparr>Email = ''alice@dhbw.de.evil.com''\<rparr> \<in> glob_language (TargetUserFilter rule))
              dummyRules = []"
    unfolding glob_match_iff [symmetric] by (simp add: dummyRules_def)
  from matcher_is_full_glob_match
         [of sample_app dummyRules "\<lparr>Email = ''alice@dhbw.de''\<rparr>" "''project.dhbw.cloud''"
             "''project.dhbw.cloud.''"]
       matcher_is_full_glob_match
         [of sample_app dummyRules "\<lparr>Email = ''alice@dhbw.de.evil.com''\<rparr>" "''project.dhbw.cloud''"
             "''project.dhbw.cloud.''"]
       all star f1 f2
  show ?thesis by simp
qed

lemma listUserRules_admin:
  "listUserRules sample_app \<lparr>Email = ''admin@example.org''\<rparr> False = Inr []"
  by (simp add: listUserRules_def sample_app_def sample_storage_of PolicyGetAll_sample)
     (simp add: dummyRules_def)

text \<open>
  C1 as stated fails for the webhook: it passes \<open>false\<close> for the super-admin flag, so
  an email of the configured super-admin set that matches no filter gets an empty list,
  although the store holds three rules.
\<close>

theorem webhook_ignores_super_admin_set:
  "''admin@example.org'' \<in> SuperAdminEmails (DnsPolicyConfig (Config sample_app)) \<and>
   PolicyGetAll (Storage sample_app) = Inr dummyRules \<and>
   length dummyRules = 3 \<and>
   verifyApiKey (request_with ''Bearer s3cret'' ''admin@example.org'')
     (WebhookApiKey (DnsPolicyConfig (Config sample_app))) = Inr () \<and>
   Reply (webhookFunc sample_app (request_with ''Bearer s3cret'' ''admin@example.org'')) =
     \<lparr>Status = 200, Payload = Zones [], Aborted = False\<rparr>"
proof -
  have "Reply (webhookFunc sample_app (request_with ''Bearer s3cret'' ''admin@example.org'')) =
     \<lparr>Status = 200, Payload = Zones [], Aborted = False\<rparr>"
    using webhookFunc_resolved [OF verify_sample BindJSON_request_with listUserRules_admin]
    by (simp add: StatusOK_def)
  moreover have "PolicyGetAll (Storage sample_app) = Inr dummyRules"
    by (simp add: sample_app_def sample_storage_of PolicyGetAll_sample)
  moreover have "''admin@example.org'' \<in> SuperAdminEmails (DnsPolicyConfig (Config sample_app))"
    by (simp add: sample_app_def app_with_def)
  moreover have "length dummyRules = 3" by (simp add: dummyRules_def)
  ultimately show ?thesis using verify_sample by blast
qed

lemma listUserRules_other_config:
  "listUserRules (app\<lparr>Config := cfg\<rparr>) user flag = listUserRules app user flag"
  by (simp add: listUserRules_def)

text \<open>
  C1, amended. For any rule set and any identity, \<open>listUserRules\<close> called with the
  super-admin flag set returns every stored rule, whatever the filters. The webhook
  always calls it with the flag cleared: it returns the zones of exactly the rules whose
  filter matches the email, and its outcome does not depend on the configured
  super-admin set.
\<close>

theorem super_admin_flag_returns_every_rule:
  assumes "PolicyGetAll (Storage app) = Inr all"
  shows "listUserRules app claims True = Inr all \<and>
         (verifyApiKey c (WebhookApiKey (DnsPolicyConfig (Config app))) = Inr () \<and>
          BindJSON c = Inr claims \<longrightarrow>
            RuleLookups (webhookFunc app c) = [(claims, False)] \<and>
            Reply (webhookFunc app c) =
              \<lparr>Status = 200,
               Payload = Zones (map (zone_of (DnsMakeCompliant (Email claims)))
                            (filter (\<lambda>rule. glob_match (TargetUserFilter rule) (Email claims)) all)),
               Aborted = False\<rparr>) \<and>
         (\<forall>admins. webhookFunc
            (app\<lparr>Config := (Config app)\<lparr>DnsPolicyConfig :=
               (DnsPolicyConfig (Config app))\<lparr>SuperAdminEmails := admins\<rparr>\<rparr>\<rparr>) c =
            webhookFunc app c)"
proof (intro conjI impI allI)
  from assms show "listUserRules app claims True = Inr all"
    by (simp add: listUserRules_Inr)
next
  assume a: "verifyApiKey c (WebhookApiKey (DnsPolicyConfig (Config app))) = Inr () \<and>
          BindJSON c = Inr claims"
  from assms have "listUserRules app claims False =
      Inr (filter (\<lambda>rule. glob_match (TargetUserFilter rule) (Email claims)) all)"
    by (simp add: listUserRules_Inr)
  from webhookFunc_resolved [OF conjunct1 [OF a] conjunct2 [OF a] this]
  show "RuleLookups (webhookFunc app c) = [(claims, False)]"
    and "Reply (webhookFunc app c) =
              \<lparr>Status = 200,
               Payload = Zones (map (zone_of (DnsMakeCompliant (Email claims)))
                            (filter (\<lambda>rule. glob_match (TargetUserFilter rule) (Email claims)) all)),
               Aborted = False\<rparr>"
    by (simp_all add: StatusOK_def)
next
  fix admins
  show "webhookFunc
            (app\<lparr>Config := (Config app)\<lparr>DnsPolicyConfig :=
               (DnsPolicyConfig (Config app))\<lparr>SuperAdminEmails := admins\<rparr>\<rparr>\<rparr>) c =
            webhookFunc app c"
    by (simp add: webhookFunc_def listUserRules_other_config cong: sum.case_cong)
qed

theorem super_admin_flag_returns_every_rule_witness:
  "listUserRules sample_app \<lparr>Email = ''admin@example.org''\<rparr> True = Inr dummyRules \<and>
   RuleLookups (webhookFunc sample_app (request_with ''Bearer s3cret'' ''admin@example.org'')) =
     [(\<lparr>Email = ''admin@example.org''\<rparr>, False)] \<and>
   Reply (webhookFunc sample_app (request_with ''Bearer s3cret'' ''admin@example.org'')) =
     \<lparr>Status = 200, Payload = Zones [], Aborted = False\<rparr>"
proof -
  have all: "PolicyGetAll (Storage sample_app) = Inr dummyRules"
    by (simp add: sample_app_def sample_storage_of PolicyGetAll_sample)
  have none: "filter (\<lambda>rule. glob_match (TargetUserFilter rule) (Email \<lparr>Email = ''admin@example.org''\<rparr>))
                dummyRules = []"
    by (simp add: dummyRules_def)
  from super_admin_flag_returns_every_rule
         [OF all, of "\<lparr>Email = ''admin@example.org''\<rparr>"
            "request_with ''Bearer s3cret'' ''admin@example.org''"]
       verify_sample [of "''admin@example.org''"]
       BindJSON_request_with [of "''Bearer s3cret''" "''admin@example.org''"] none
  show ?thesis by simp
qed

section \<open>Store failures and order\<close>

text \<open>
  C7. When the read of all rules fails during a webhook resolution, the answer is the
  server error 500 with an error message and no list of zones; \<open>PolicyGetAll\<close> fails
  only when the database reports a failure, never for want of rules.
\<close>

theorem store_failure_is_server_error:
  assumes "PolicyGetAll (Storage app) = Inl err"
      and "verifyApiKey c (WebhookApiKey (DnsPolicyConfig (Config app))) = Inr ()"
      and "BindJSON c = Inr claims"
  shows "Reply (webhookFunc app c) =
           \<lparr>Status = 500, Payload = H [(''error'', ''Failed to retrieve rules'')],
            Aborted = False\<rparr> \<and>
         (\<forall>zones. Payload (Reply (webhookFunc app c)) \<noteq> Zones zones) \<and>
         failure (db (Storage app)) \<noteq> None"
proof -
  from assms(1) have "listUserRules app claims False = Inl err"
    by (rule listUserRules_Inl)
  from webhookFunc_store_failed [OF assms(2,3) this]
  have "Reply (webhookFunc app c) =
           \<lparr>Status = 500, Payload = H [(''error'', ''Failed to retrieve rules'')],
            Aborted = False\<rparr>"
    by (simp add: StatusInternalServerError_def)
  moreover from assms(1) have "failure (db (Storage app)) \<noteq> None"
    using PolicyGetAll_fails_iff by blast
  ultimately show ?thesis by simp
qed

theorem store_failure_is_server_error_witness:
  "Reply (webhookFunc (app_with ''s3cret'' broken_storage)
            (request_with ''Bearer s3cret'' ''bob@uni-luebeck.de'')) =
     \<lparr>Status = 500, Payload = H [(''error'', ''Failed to retrieve rules'')], Aborted = False\<rparr>"
proof -
  have f: "PolicyGetAll (Storage (app_with ''s3cret'' broken_storage)) =
             Inl (fmt_Errorf ''storage.GetAll: Failed to retrieve rules: ''
                    (driver_error ''database is locked''))"
    by (simp add: sample_storage_of PolicyGetAll_broken)
  have v: "verifyApiKey (request_with ''Bearer s3cret'' ''bob@uni-luebeck.de'')
             (WebhookApiKey (DnsPolicyConfig (Config (app_with ''s3cret'' broken_storage)))) = Inr ()"
    by (simp add: verifyApiKey_Inr_iff GetHeader_request_with bearerPrefix_def sample_key)
  from store_failure_is_server_error [OF f v BindJSON_request_with] show ?thesis by simp
qed

section \<open>The label of an email\<close>




section \<open>Updating a rule\<close>

text \<open>
  C9. A successful \<open>PolicyUpdate\<close> leaves the identifier, the authority and the instant
  of creation of every stored rule as they were, whatever the caller supplies for them:
  the stored rule with the identifier of the argument takes the argument's pattern,
  filter and description, and every other stored rule is unchanged.
\<close>

theorem update_changes_only_selected_fields:
  assumes "PolicyUpdate s rule = (s', Inr r)"
  shows "map ID (policy_rules (db s')) = map ID (policy_rules (db s)) \<and>
         map ZoneSoa (policy_rules (db s')) = map ZoneSoa (policy_rules (db s)) \<and>
         map CreatedAt (policy_rules (db s')) = map CreatedAt (policy_rules (db s)) \<and>
         (\<forall>i old. PolicyGetByID s i = Inr old \<longrightarrow>
            (\<exists>new. PolicyGetByID s' i = Inr new \<and>
               ID new = ID old \<and> ZoneSoa new = ZoneSoa old \<and> CreatedAt new = CreatedAt old \<and>
               (i \<noteq> ID rule \<longrightarrow> new = old) \<and>
               (i = ID rule \<longrightarrow>
                  ZonePattern new = ZonePattern rule \<and>
                  TargetUserFilter new = TargetUserFilter rule \<and>
                  Description new = Description rule)))"
proof -
  from PolicyUpdate_success [OF assms]
  have s': "policy_rules (db s') = map (update_row rule) (policy_rules (db s))"
    by simp
  have maps: "map ID (policy_rules (db s')) = map ID (policy_rules (db s))"
    "map ZoneSoa (policy_rules (db s')) = map ZoneSoa (policy_rules (db s))"
    "map CreatedAt (policy_rules (db s')) = map CreatedAt (policy_rules (db s))"
    unfolding s' by (simp_all add: update_row_frame)
  have byid: "\<exists>new. PolicyGetByID s' i = Inr new \<and>
               ID new = ID old \<and> ZoneSoa new = ZoneSoa old \<and> CreatedAt new = CreatedAt old \<and>
               (i \<noteq> ID rule \<longrightarrow> new = old) \<and>
               (i = ID rule \<longrightarrow>
                  ZonePattern new = ZonePattern rule \<and>
                  TargetUserFilter new = TargetUserFilter rule \<and>
                  Description new = Description rule)"
    if old: "PolicyGetByID s i = Inr old" for i old
  proof -
    from old have i: "ID old = i" by (rule PolicyGetByID_ID)
    have "PolicyGetByID s' i = Inr (update_row rule old)"
      using assms old by (rule PolicyGetByID_after_update)
    moreover have "i \<noteq> ID rule \<longrightarrow> update_row rule old = old"
      using i update_row_other by blast
    moreover have "i = ID rule \<longrightarrow>
                  ZonePattern (update_row rule old) = ZonePattern rule \<and>
                  TargetUserFilter (update_row rule old) = TargetUserFilter rule \<and>
                  Description (update_row rule old) = Description rule"
      using i update_row_target by blast
    ultimately show ?thesis using update_row_frame by blast
  qed
  from maps byid show ?thesis by blast
qed

lemma PolicyUpdate_sample:
  "PolicyUpdate sample_storage sample_update =
     (\<lparr>db = \<lparr>policy_rules =
          [\<lparr>ID = 3, ZonePattern = ''%u.lab.uni-luebeck.de'', ZoneSoa = ''cloud.uni-luebeck.de'',
            TargetUserFilter = ''*@lab.uni-luebeck.de'', Description = ''Lab zones'',
            CreatedAt = 0\<rparr>,
           dummyRules ! 1, dummyRules ! 0],
        failure = None\<rparr>\<rparr>, Inr sample_update)"
  by (simp add: PolicyUpdate_def sample_storage_def sample_update_def dummyRules_def
      update_violates_unique_def update_row_def Let_def)

lemma PolicyGetByID_sample: "PolicyGetByID sample_storage 3 = Inr (dummyRules ! 2)"
  by (simp add: PolicyGetByID_def sample_storage_def dummyRules_def)

lemma PolicyGetByID_sample_1: "PolicyGetByID sample_storage 1 = Inr (dummyRules ! 0)"
  by (simp add: PolicyGetByID_def sample_storage_def dummyRules_def)

theorem update_changes_only_selected_fields_witness:
  "snd (PolicyUpdate sample_storage sample_update) = Inr sample_update \<and>
   ZoneSoa sample_update = ''elsewhere.example'' \<and> CreatedAt sample_update = 99 \<and>
   PolicyGetByID sample_storage 3 =
     Inr \<lparr>ID = 3, ZonePattern = ''%u.cloud.uni-luebeck.de'', ZoneSoa = ''cloud.uni-luebeck.de'',
          TargetUserFilter = ''*@uni-luebeck.de'',
          Description = ''All Uni-Luebeck users can create subdomains'', CreatedAt = 0\<rparr> \<and>
   PolicyGetByID (fst (PolicyUpdate sample_storage sample_update)) 3 =
     Inr \<lparr>ID = 3, ZonePattern = ''%u.lab.uni-luebeck.de'', ZoneSoa = ''cloud.uni-luebeck.de'',
          TargetUserFilter = ''*@lab.uni-luebeck.de'', Description = ''Lab zones'',
          CreatedAt = 0\<rparr> \<and>
   PolicyGetByID (fst (PolicyUpdate sample_storage sample_update)) 1 = PolicyGetByID sample_storage 1"
proof -
  obtain s' where upd: "PolicyUpdate sample_storage sample_update = (s', Inr sample_update)"
    using PolicyUpdate_sample by blast
  note frame_thm = update_changes_only_selected_fields [OF upd]
  from frame_thm PolicyGetByID_sample
  obtain new where new: "PolicyGetByID s' 3 = Inr new"
    and frame: "ID new = ID (dummyRules ! 2)" "ZoneSoa new = ZoneSoa (dummyRules ! 2)"
      "CreatedAt new = CreatedAt (dummyRules ! 2)"
    and target: "3 = ID sample_update \<longrightarrow>
                  ZonePattern new = ZonePattern sample_update \<and>
                  TargetUserFilter new = TargetUserFilter sample_update \<and>
                  Description new = Description sample_update"
    by blast
  from frame_thm PolicyGetByID_sample_1
  obtain other where other: "PolicyGetByID s' 1 = Inr other"
    and same: "1 \<noteq> ID sample_update \<longrightarrow> other = dummyRules ! 0"
    by blast
  have i: "ID sample_update = 3" by (simp add: sample_update_def)
  with same other have one: "PolicyGetByID s' 1 = PolicyGetByID sample_storage 1"
    by (simp add: PolicyGetByID_sample_1)
  from i target frame have
    "new = \<lparr>ID = 3, ZonePattern = ''%u.lab.uni-luebeck.de'', ZoneSoa = ''cloud.uni-luebeck.de'',
          TargetUserFilter = ''*@lab.uni-luebeck.de'', Description = ''Lab zones'',
          CreatedAt = 0\<rparr>"
    by (cases new) (simp add: sample_update_def dummyRules_def)
  with new upd one PolicyGetByID_sample show ?thesis
    by (simp add: sample_update_def dummyRules_def)
qed

section \<open>The order of the zones\<close>

lemma zone_alice:
  "ReplaceAll ''%u.users.dhbw.cloud'' ''%u'' ''alice-dhbw-de'' = ''alice-dhbw-de.users.dhbw.cloud''"
  "ReplaceAll ''project.dhbw.cloud'' ''%u'' ''alice-dhbw-de'' = ''project.dhbw.cloud''"
  by code_simp+

text \<open>
  C8. Whatever rows the store holds, \<open>PolicyGetAll\<close> returns all of them ordered by
  ascending identifier. The rules the webhook matches are a subsequence of that list,
  hence in ascending order too, and the i-th zone response is the one rendered from the
  i-th matched rule.
\<close>

theorem zones_follow_ascending_id:
  "(\<forall>all. PolicyGetAll s = Inr all \<longrightarrow>
      sorted (map ID all) \<and> set all = set (policy_rules (db s)) \<and>
      length all = length (policy_rules (db s))) \<and>
   (verifyApiKey c (WebhookApiKey (DnsPolicyConfig (Config app))) = Inr () \<and>
    BindJSON c = Inr claims \<and> listUserRules app claims False = Inr rules \<longrightarrow>
      sorted (map ID rules) \<and>
      (\<exists>all. PolicyGetAll (Storage app) = Inr all \<and> subseq rules all) \<and>
      (\<exists>zones. Payload (Reply (webhookFunc app c)) = Zones zones \<and>
         length zones = length rules \<and>
         (\<forall>i<length rules.
            zones ! i =
              \<lparr>Zone = ReplaceAll (ZonePattern (rules ! i)) ''%u'' (DnsMakeCompliant (Email claims)),
               ZoneSOA = ZoneSoa (rules ! i)\<rparr>)))"
proof (intro conjI allI impI)
  fix all
  assume "PolicyGetAll s = Inr all"
  then show "sorted (map ID all)" "set all = set (policy_rules (db s))"
    "length all = length (policy_rules (db s))"
    using PolicyGetAll_sorted PolicyGetAll_rows by blast+
next
  assume a: "verifyApiKey c (WebhookApiKey (DnsPolicyConfig (Config app))) = Inr () \<and>
    BindJSON c = Inr claims \<and> listUserRules app claims False = Inr rules"
  then have v: "verifyApiKey c (WebhookApiKey (DnsPolicyConfig (Config app))) = Inr ()"
    and b: "BindJSON c = Inr claims" and l: "listUserRules app claims False = Inr rules"
    by blast+
  from l obtain all where all: "PolicyGetAll (Storage app) = Inr all"
    and rules: "rules = filter (\<lambda>rule. False \<or> glob_match (TargetUserFilter rule) (Email claims)) all"
    by (auto simp: listUserRules_def split: sum.splits)
  from all have "sorted (map ID all)" by (rule PolicyGetAll_sorted)
  then show "sorted (map ID rules)" unfolding rules by (rule sorted_filter)
  from all rules show "\<exists>all. PolicyGetAll (Storage app) = Inr all \<and> subseq rules all"
    by auto
  let ?zones = "map (zone_of (DnsMakeCompliant (Email claims))) rules"
  from webhookFunc_resolved [OF v b l]
  have "Payload (Reply (webhookFunc app c)) = Zones ?zones" by simp
  moreover have "length ?zones = length rules" by simp
  moreover have "\<forall>i<length rules. ?zones ! i =
              \<lparr>Zone = ReplaceAll (ZonePattern (rules ! i)) ''%u'' (DnsMakeCompliant (Email claims)),
               ZoneSOA = ZoneSoa (rules ! i)\<rparr>"
    by (simp add: zone_of_def)
  ultimately show "\<exists>zones. Payload (Reply (webhookFunc app c)) = Zones zones \<and>
         length zones = length rules \<and>
         (\<forall>i<length rules.
            zones ! i =
              \<lparr>Zone = ReplaceAll (ZonePattern (rules ! i)) ''%u'' (DnsMakeCompliant (Email claims)),
               ZoneSOA = ZoneSoa (rules ! i)\<rparr>)"
    by blast
qed

theorem zones_follow_ascending_id_witness:
  "policy_rules (db sample_storage) = [dummyRules ! 2, dummyRules ! 1, dummyRules ! 0] \<and>
   PolicyGetAll sample_storage = Inr dummyRules \<and>
   sorted (map ID dummyRules) \<and>
   map ID dummyRules = [1, 2, 3] \<and>
   Payload (Reply (webhookFunc sample_app (request_with ''Bearer s3cret'' ''alice@dhbw.de''))) =
     Zones [\<lparr>Zone = ''alice-dhbw-de.users.dhbw.cloud'', ZoneSOA = ''users.dhbw.cloud''\<rparr>,
            \<lparr>Zone = ''project.dhbw.cloud'', ZoneSOA = ''project.dhbw.cloud''\<rparr>]"
proof -
  let ?c = "request_with ''Bearer s3cret'' ''alice@dhbw.de''"
  let ?claims = "\<lparr>Email = ''alice@dhbw.de''\<rparr>"
  let ?rules = "[dummyRules ! 0, dummyRules ! 1]"
  note inst = zones_follow_ascending_id [of sample_storage ?c sample_app ?claims ?rules]
  from inst PolicyGetAll_sample have srt: "sorted (map ID dummyRules)" by blast
  have rows: "policy_rules (db sample_storage) = [dummyRules ! 2, dummyRules ! 1, dummyRules ! 0]"
    by (simp add: sample_storage_def dummyRules_def)
  have ids: "map ID dummyRules = [1, 2, 3]" by (simp add: dummyRules_def)
  have pre: "verifyApiKey ?c (WebhookApiKey (DnsPolicyConfig (Config sample_app))) = Inr () \<and>
    BindJSON ?c = Inr ?claims \<and> listUserRules sample_app ?claims False = Inr ?rules"
    using verify_sample BindJSON_request_with listUserRules_alice by blast
  with inst obtain zones where
    pay: "Payload (Reply (webhookFunc sample_app ?c)) = Zones zones"
    and len: "length zones = length ?rules"
    and each: "\<forall>i<length ?rules. zones ! i =
              \<lparr>Zone = ReplaceAll (ZonePattern (?rules ! i)) ''%u'' (DnsMakeCompliant (Email ?claims)),
               ZoneSOA = ZoneSoa (?rules ! i)\<rparr>"
    by blast
  from len obtain z0 z1 where zs: "zones = [z0, z1]"
    by (cases zones; cases "tl zones") auto
  from each have "zones ! 0 =
      \<lparr>Zone = ReplaceAll (ZonePattern (?rules ! 0)) ''%u'' (DnsMakeCompliant (Email ?claims)),
       ZoneSOA = ZoneSoa (?rules ! 0)\<rparr>" by simp
  then have z0: "z0 = \<lparr>Zone = ''alice-dhbw-de.users.dhbw.cloud'', ZoneSOA = ''users.dhbw.cloud''\<rparr>"
    by (simp add: zs dummyRules_def label_alice zone_alice)
  from each have "zones ! 1 =
      \<lparr>Zone = ReplaceAll (ZonePattern (?rules ! 1)) ''%u'' (DnsMakeCompliant (Email ?claims)),
       ZoneSOA = ZoneSoa (?rules ! 1)\<rparr>" by simp
  then have z1: "z1 = \<lparr>Zone = ''project.dhbw.cloud'', ZoneSOA = ''project.dhbw.cloud''\<rparr>"
    by (simp add: zs dummyRules_def label_alice zone_alice)
  from rows PolicyGetAll_sample srt ids pay zs z0 z1 show ?thesis by simp
qed

end
